theory Spec2Isabelle
  imports Complex_Main
begin

section \<open>JavaScript values\<close>

text \<open>
  The repository is TypeScript: at run time its data are JavaScript values. A number is an
  IEEE double; the embedding keeps the three special values apart and holds a finite
  number as the rational it denotes (\<open>-0\<close> and \<open>+0\<close> are both \<open>Fin 0\<close>: the code
  only compares numbers and tests them for truthiness, where the two zeros agree).
  Strings are lists of code units, restricted to the code units below 256.
\<close>

datatype jsnum = NaN | PosInf | NegInf | Fin rat

datatype jsval =
    JUndefined
  | JNull
  | JBool bool
  | JNum jsnum
  | JStr string
  | JArr "jsval list"
  | JObj "(string \<times> jsval) list"

type_synonym js_object = "(string \<times> jsval) list"

text \<open>A thrown value (a rejected promise): the two error classes the code meets.\<close>

datatype js_error = Error string | TypeError string

text \<open>\<open>!v\<close>: the falsy values are undefined, null, false, 0, NaN and the empty string.\<close>

fun falsy :: "jsval \<Rightarrow> bool" where
  "falsy JUndefined = True"
| "falsy JNull = True"
| "falsy (JBool b) = (b = False)"
| "falsy (JNum n) = (n = NaN \<or> n = Fin 0)"
| "falsy (JStr s) = (s = [])"
| "falsy (JArr xs) = False"
| "falsy (JObj kvs) = False"

fun typeof :: "jsval \<Rightarrow> string" where
  "typeof JUndefined = ''undefined''"
| "typeof JNull = ''object''"
| "typeof (JBool b) = ''boolean''"
| "typeof (JNum n) = ''number''"
| "typeof (JStr s) = ''string''"
| "typeof (JArr xs) = ''object''"
| "typeof (JObj kvs) = ''object''"

text \<open>\<open>a < b\<close> and \<open>a <= b\<close> on numbers: every comparison with NaN is false.\<close>

fun js_less :: "jsnum \<Rightarrow> jsnum \<Rightarrow> bool" where
  "js_less NaN b = False"
| "js_less a NaN = False"
| "js_less a NegInf = False"
| "js_less NegInf b = True"
| "js_less PosInf b = False"
| "js_less a PosInf = True"
| "js_less (Fin x) (Fin y) = (x < y)"

fun js_less_eq :: "jsnum \<Rightarrow> jsnum \<Rightarrow> bool" where
  "js_less_eq NaN b = False"
| "js_less_eq a NaN = False"
| "js_less_eq NegInf b = True"
| "js_less_eq a NegInf = False"
| "js_less_eq a PosInf = True"
| "js_less_eq PosInf b = False"
| "js_less_eq (Fin x) (Fin y) = (x \<le> y)"

definition isNaN :: "jsnum \<Rightarrow> bool" where
  "isNaN n = (n = NaN)"

text \<open>
  Reading an own data property of an object (\<open>obj.k\<close>, \<open>obj[k]\<close>): the first binding of
  the key, \<open>undefined\<close> when there is none.
\<close>

definition lookup :: "js_object \<Rightarrow> string \<Rightarrow> jsval" where
  "lookup kvs k = (case map_of kvs k of Some v \<Rightarrow> v | None \<Rightarrow> JUndefined)"

text \<open>
  \<open>v.k\<close> for one of the data fields the code reads (\<open>name\<close>, \<open>unit\<close>, \<open>cost_per_unit\<close>,
  \<open>vendor_id\<close>, \<open>message\<close>), which no built-in prototype defines: the own property on
  an object, undefined on every other value that is not undefined or null.
\<close>

fun field :: "jsval \<Rightarrow> string \<Rightarrow> jsval" where
  "field (JObj kvs) k = lookup kvs k"
| "field v k = JUndefined"

text \<open>
  Reading \<open>v.k\<close> off undefined or null throws a TypeError (the text is the one of V8;
  the only place that can throw it, in the form component, discards the error).
\<close>

definition get_field :: "jsval \<Rightarrow> string \<Rightarrow> js_error + jsval" where
  "get_field v k =
     (if v = JUndefined then
        Inl (TypeError (''Cannot read properties of undefined (reading '' @ [CHR 0x27] @ k
                         @ [CHR 0x27] @ '')''))
      else if v = JNull then
        Inl (TypeError (''Cannot read properties of null (reading '' @ [CHR 0x27] @ k
                         @ [CHR 0x27] @ '')''))
      else Inr (field v k))"

subsection \<open>Strings and numeric parsing\<close>

text \<open>White space and line terminators, among the code units below 256.\<close>

definition is_ws :: "char \<Rightarrow> bool" where
  "is_ws c = ((of_char c :: nat) \<in> {9, 10, 11, 12, 13, 32, 160})"

text \<open>\<open>String.prototype.trim\<close>.\<close>

definition trim :: "string \<Rightarrow> string" where
  "trim s = rev (dropWhile is_ws (rev (dropWhile is_ws s)))"

text \<open>The value of a digit in a radix up to 36, as \<open>parseInt\<close> reads it.\<close>

definition digit_of :: "nat \<Rightarrow> char \<Rightarrow> nat option" where
  "digit_of radix c =
     (let n = (of_char c :: nat);
          d = (if 48 \<le> n \<and> n \<le> 57 then Some (n - 48)
               else if 97 \<le> n \<and> n \<le> 122 then Some (n - 87)
               else if 65 \<le> n \<and> n \<le> 90 then Some (n - 55)
               else None)
      in case d of None \<Rightarrow> None | Some v \<Rightarrow> if v < radix then Some v else None)"

definition is_digit :: "nat \<Rightarrow> char \<Rightarrow> bool" where
  "is_digit radix c = (case digit_of radix c of None \<Rightarrow> False | Some v \<Rightarrow> True)"

definition digits_value :: "nat \<Rightarrow> string \<Rightarrow> nat" where
  "digits_value radix ds =
     foldl (\<lambda>acc c. acc * radix + (case digit_of radix c of None \<Rightarrow> 0 | Some v \<Rightarrow> v)) 0 ds"

text \<open>
  The double nearest to a mathematical value (round to nearest, ties to even), held as
  the rational it denotes. A double has 53 significant bits and a binary exponent from
  -1022 to 1023; below \<open>2^-1022\<close> the spacing stays \<open>2^-1074\<close>. So a value of binary
  exponent \<open>e\<close> is rounded to a multiple of \<open>2^(max e (-1022) - 52)\<close>, and a value that
  rounds to \<open>2^1024\<close> or beyond is an infinity.
\<close>

definition pow2 :: "int \<Rightarrow> rat" where
  "pow2 e = (if 0 \<le> e then 2 ^ nat e else 1 / 2 ^ nat (- e))"

text \<open>The number of binary digits of a natural number.\<close>

function bit_length :: "nat \<Rightarrow> nat" where
  "bit_length n = (if n = 0 then 0 else Suc (bit_length (n div 2)))"
  by pat_completeness auto
termination
  by (relation "measure id") auto

declare bit_length.simps [simp del]

text \<open>The binary exponent of a positive value \<open>m\<close>: the \<open>e\<close> with \<open>2^e \<le> m < 2^(e+1)\<close>.\<close>

definition exponent_of :: "rat \<Rightarrow> int" where
  "exponent_of m =
     (if 1 \<le> m then int (bit_length (nat \<lfloor>m\<rfloor>)) - 1
      else - int (bit_length (nat \<lceil>1 / m\<rceil> - 1)))"

definition round_half_even :: "rat \<Rightarrow> int" where
  "round_half_even x =
     (let f = \<lfloor>x\<rfloor>; d = x - of_int f
      in if d < 1 / 2 then f else if 1 / 2 < d then f + 1 else if even f then f else f + 1)"

definition number_of_rat :: "rat \<Rightarrow> jsnum" where
  "number_of_rat q =
     (if q = 0 then Fin 0
      else
        (let m = \<bar>q\<bar>;
             e = max (exponent_of m) (- 1022);
             ulp = pow2 (e - 52);
             r = of_int (round_half_even (m / ulp)) * ulp
         in if pow2 1024 \<le> r then (if 0 < q then PosInf else NegInf)
            else Fin (if 0 < q then r else - r)))"

fun round_number :: "jsnum \<Rightarrow> jsnum" where
  "round_number (Fin q) = number_of_rat q"
| "round_number n = n"

fun negate :: "jsnum \<Rightarrow> jsnum" where
  "negate NaN = NaN"
| "negate PosInf = NegInf"
| "negate NegInf = PosInf"
| "negate (Fin q) = Fin (- q)"

text \<open>
  \<open>parseInt(string)\<close> with no radix: leading white space is skipped, a sign is read, a
  \<open>0x\<close> or \<open>0X\<close> prefix selects radix 16, and the longest run of digits of the radix is
  the value; no digit gives NaN.
\<close>

definition parseInt :: "string \<Rightarrow> jsnum" where
  "parseInt str =
     (let s = dropWhile is_ws str;
          neg = (take 1 s = ''-'');
          s1 = (if take 1 s = ''+'' \<or> take 1 s = ''-'' then drop 1 s else s);
          hex = (take 2 s1 = ''0x'' \<or> take 2 s1 = ''0X'');
          radix = (if hex then 16 else 10);
          s2 = (if hex then drop 2 s1 else s1);
          z = takeWhile (is_digit radix) s2
      in if z = [] then NaN
         else number_of_rat ((if neg then - 1 else 1) * of_nat (digits_value radix z)))"

text \<open>
  The exponent part of a decimal literal, \<open>e\<close> or \<open>E\<close>, an optional sign and at least one
  digit: the exponent and the rest of the text. Without a digit there is no exponent part
  and nothing is consumed.
\<close>

definition parse_exponent :: "string \<Rightarrow> int \<times> string" where
  "parse_exponent s =
     (if take 1 s = ''e'' \<or> take 1 s = ''E'' then
        (let t = drop 1 s;
             neg = (take 1 t = ''-'');
             t1 = (if take 1 t = ''+'' \<or> take 1 t = ''-'' then drop 1 t else t);
             ds = takeWhile (is_digit 10) t1
         in if ds = [] then (0, s)
            else ((if neg then - 1 else 1) * int (digits_value 10 ds), dropWhile (is_digit 10) t1))
      else (0, s))"

definition pow10 :: "int \<Rightarrow> rat" where
  "pow10 e = (if 0 \<le> e then 10 ^ nat e else 1 / 10 ^ nat (- e))"

text \<open>
  The longest prefix that is a \<open>StrUnsignedDecimalLiteral\<close>: \<open>Infinity\<close>, or digits with an
  optional fraction and exponent, or a fraction that starts with the point. The value is
  not yet rounded.
\<close>

definition parse_unsigned :: "string \<Rightarrow> (jsnum \<times> string) option" where
  "parse_unsigned s =
     (if take 8 s = ''Infinity'' then Some (PosInf, drop 8 s)
      else
        (let a = takeWhile (is_digit 10) s;
             r1 = dropWhile (is_digit 10) s;
             dot = (take 1 r1 = ''.'');
             b = (if dot then takeWhile (is_digit 10) (drop 1 r1) else []);
             r2 = (if dot then dropWhile (is_digit 10) (drop 1 r1) else r1)
         in if a = [] \<and> b = [] then None
            else (case parse_exponent r2 of
                    (e, r3) \<Rightarrow>
                      Some (Fin ((of_nat (digits_value 10 a)
                                  + of_nat (digits_value 10 b) / 10 ^ length b) * pow10 e), r3))))"

definition parse_decimal :: "string \<Rightarrow> (jsnum \<times> string) option" where
  "parse_decimal s =
     (let neg = (take 1 s = ''-'');
          s1 = (if take 1 s = ''+'' \<or> take 1 s = ''-'' then drop 1 s else s)
      in case parse_unsigned s1 of
           None \<Rightarrow> None
         | Some (m, rest) \<Rightarrow> Some (round_number (if neg then negate m else m), rest))"

text \<open>\<open>parseFloat(string)\<close>: the longest decimal literal after the leading white space.\<close>

definition parseFloat :: "string \<Rightarrow> jsnum" where
  "parseFloat str =
     (case parse_decimal (dropWhile is_ws str) of None \<Rightarrow> NaN | Some (v, rest) \<Rightarrow> v)"

text \<open>
  \<open>Number(string)\<close>: the whole trimmed text must be a numeric literal. The empty text is
  0; \<open>0x\<close>, \<open>0o\<close> and \<open>0b\<close> (either case) introduce an unsigned integer in radix 16, 8
  and 2; anything else must be a decimal literal with nothing after it.
\<close>

definition radix_of_prefix :: "string \<Rightarrow> nat option" where
  "radix_of_prefix s =
     (if take 2 s = ''0x'' \<or> take 2 s = ''0X'' then Some 16
      else if take 2 s = ''0o'' \<or> take 2 s = ''0O'' then Some 8
      else if take 2 s = ''0b'' \<or> take 2 s = ''0B'' then Some 2
      else None)"

definition Number_of_string :: "string \<Rightarrow> jsnum" where
  "Number_of_string str =
     (let s = trim str in
      if s = [] then Fin 0
      else (case radix_of_prefix s of
              Some radix \<Rightarrow>
                (let ds = drop 2 s in
                 if ds = [] then NaN
                 else if list_all (is_digit radix) ds then number_of_rat (of_nat (digits_value radix ds))
                 else NaN)
            | None \<Rightarrow>
                (case parse_decimal s of
                   None \<Rightarrow> NaN
                 | Some (v, rest) \<Rightarrow> if rest = [] then v else NaN)))"

section \<open>The ingredient routes (api/src/routes/ingredient/index.ts)\<close>

text \<open>
  \<open>req.app.get("db")\<close> is the handle of the object-relational mapper; its tables
  \<open>db.ingredient\<close> and \<open>db.entity\<close> are not code of the repository, so the operations
  the handlers call are parameters. \<open>'s\<close> is the state of the database. A read answers
  with a value or rejects and leaves the state as it is; \<open>insert\<close> answers with the created
  row or rejects, and gives the state after it.
\<close>

record 's database =
  ingredient_find :: "'s \<Rightarrow> js_error + jsval"
  ingredient_findOne :: "jsval \<Rightarrow> 's \<Rightarrow> js_error + jsval"
  ingredient_insert :: "jsval \<Rightarrow> 's \<Rightarrow> (js_error + jsval) \<times> 's"
  entity_findOne :: "jsval \<Rightarrow> 's \<Rightarrow> js_error + jsval"

datatype db_call =
    IngredientFind
  | IngredientFindOne jsval
  | IngredientInsert jsval
  | EntityFindOne jsval

record response =
  status :: nat
  body :: jsval

text \<open>
  What one run of a handler does: the response it sends, the database calls it makes in
  order, what it prints with \<open>console.error\<close>, and the state of the database after it.
\<close>

record 's handled =
  response :: response
  db_calls :: "db_call list"
  console_error :: "(string \<times> js_error) list"
  db_state :: 's

definition message :: "string \<Rightarrow> jsval" where
  "message text = JObj [(''message'', JStr text)]"

text \<open>\<open>res.status(code).json(value)\<close>; \<open>res.json(value)\<close> is the same with status 200.\<close>

definition reply :: "nat \<Rightarrow> jsval \<Rightarrow> db_call list \<Rightarrow> 's \<Rightarrow> 's handled" where
  "reply code value cs s =
     \<lparr>response = \<lparr>status = code, body = value\<rparr>, db_calls = cs, console_error = [], db_state = s\<rparr>"

text \<open>The \<open>catch\<close> block of a handler: log, then 500.\<close>

definition caught :: "string \<Rightarrow> js_error \<Rightarrow> db_call list \<Rightarrow> 's \<Rightarrow> 's handled" where
  "caught label error cs s =
     \<lparr>response = \<lparr>status = 500, body = message ''Internal server error''\<rparr>,
      db_calls = cs, console_error = [(label, error)], db_state = s\<rparr>"

definition router_get :: "'s database \<Rightarrow> 's \<Rightarrow> 's handled" where
  "router_get db s =
     (case ingredient_find db s of
        Inl error \<Rightarrow> caught ''Error fetching ingredients:'' error [IngredientFind] s
      | Inr ingredients \<Rightarrow> reply 200 ingredients [IngredientFind] s)"

definition router_get_id :: "'s database \<Rightarrow> string \<Rightarrow> 's \<Rightarrow> 's handled" where
  "router_get_id db params_id s =
     (let id = parseInt params_id in
      if isNaN id then reply 400 (message ''Invalid ingredient ID'') [] s
      else
        (case ingredient_findOne db (JNum id) s of
           Inl error \<Rightarrow> caught ''Error fetching ingredient:'' error [IngredientFindOne (JNum id)] s
         | Inr ingredient \<Rightarrow>
             if falsy ingredient then
               reply 404 (message ''Ingredient not found'') [IngredientFindOne (JNum id)] s
             else reply 200 ingredient [IngredientFindOne (JNum id)] s))"

text \<open>
  \<open>const { name, unit, cost_per_unit, vendor_id }: IngredientRequest = req.body\<close>: a
  TypeError when the body is undefined or null, with the text Node gives it.
\<close>

definition destructure :: "jsval \<Rightarrow> js_error + (jsval \<times> jsval \<times> jsval \<times> jsval)" where
  "destructure req_body =
     (if req_body = JUndefined then
        Inl (TypeError
               ''Cannot destructure property 'name' of 'req.body' as it is undefined.'')
      else if req_body = JNull then
        Inl (TypeError ''Cannot destructure property 'name' of 'req.body' as it is null.'')
      else
        Inr (field req_body ''name'', field req_body ''unit'',
             field req_body ''cost_per_unit'', field req_body ''vendor_id''))"

text \<open>
  \<open>typeof v !== 'number' || v < 0\<close> and \<open>typeof v !== 'number' || v <= 0\<close>: the
  comparison is only reached on a number.
\<close>

definition not_number_or_negative :: "jsval \<Rightarrow> bool" where
  "not_number_or_negative v = (case v of JNum n \<Rightarrow> js_less n (Fin 0) | _ \<Rightarrow> True)"

definition not_number_or_not_positive :: "jsval \<Rightarrow> bool" where
  "not_number_or_not_positive v = (case v of JNum n \<Rightarrow> js_less_eq n (Fin 0) | _ \<Rightarrow> True)"

text \<open>\<open>name.trim()\<close>: a TypeError on a value that has no such method.\<close>

definition call_trim :: "jsval \<Rightarrow> js_error + jsval" where
  "call_trim v = (case v of JStr s \<Rightarrow> Inr (JStr (trim s)) | _ \<Rightarrow> Inl (TypeError ''name.trim is not a function''))"

definition router_post :: "'s database \<Rightarrow> jsval \<Rightarrow> 's \<Rightarrow> 's handled" where
  "router_post db req_body s =
     (case destructure req_body of
        Inl error \<Rightarrow> caught ''Error creating ingredient:'' error [] s
      | Inr (name, unit, cost_per_unit, vendor_id) \<Rightarrow>
          if falsy name \<or> falsy unit \<or> cost_per_unit = JUndefined \<or> falsy vendor_id then
            reply 400 (message ''Missing required fields: name, unit, cost_per_unit, vendor_id'') [] s
          else if typeof name \<noteq> ''string'' \<or> typeof unit \<noteq> ''string'' then
            reply 400 (message ''Name and unit must be strings'') [] s
          else if not_number_or_negative cost_per_unit then
            reply 400 (message ''Cost per unit must be a positive number'') [] s
          else if not_number_or_not_positive vendor_id then
            reply 400 (message ''Vendor ID must be a positive number'') [] s
          else
            (case entity_findOne db vendor_id s of
               Inl error \<Rightarrow> caught ''Error creating ingredient:'' error [EntityFindOne vendor_id] s
             | Inr vendor \<Rightarrow>
                 if falsy vendor then
                   reply 400 (message ''Vendor not found'') [EntityFindOne vendor_id] s
                 else
                   (case call_trim name of
                      Inl error \<Rightarrow>
                        caught ''Error creating ingredient:'' error [EntityFindOne vendor_id] s
                    | Inr trimmed \<Rightarrow>
                        (let record = JObj [(''name'', trimmed), (''unit'', unit),
                                            (''cost_per_unit'', cost_per_unit),
                                            (''vendor_id'', vendor_id)];
                             cs = [EntityFindOne vendor_id, IngredientInsert record]
                         in case ingredient_insert db record s of
                              (Inl error, s') \<Rightarrow> caught ''Error creating ingredient:'' error cs s'
                            | (Inr newIngredient, s') \<Rightarrow>
                                reply 201
                                  (JObj [(''message'', JStr ''Ingredient created successfully''),
                                         (''ingredient'', newIngredient)])
                                  cs s'))))"

section \<open>The data-access layer (the generic table wrapper and the base DAO)\<close>

subsection \<open>lodash's \<open>some\<close> on a criteria object\<close>

text \<open>
  \<open>some\<close> is lodash's collection method, not code of the repository; it is modelled on a
  plain object, the only kind of collection \<open>hasEmptyArray\<close> passes to it. On a
  collection that is not an array \<open>some\<close> runs \<open>baseSome\<close>, which iterates with
  \<open>baseEach\<close>; like every collection method of lodash, \<open>baseEach\<close> asks
  \<open>isArrayLike(collection)\<close> first, that is \<open>isLength(collection.length)\<close>: an object
  whose \<open>length\<close> property is a valid array length (a number above -1, integral, at most
  \<open>2^53 - 1\<close>) is iterated like an array, reading \<open>collection[index]\<close> for the indices
  \<open>0 .. length - 1\<close>; any other object is iterated by the values of its own properties.
  (lodash documents it with \<open>forEach\<close>: "As with other Collections methods, objects with
  a length property are iterated like arrays.")
\<close>

definition isLength :: "jsval \<Rightarrow> bool" where
  "isLength v =
     (case v of
        JNum (Fin q) \<Rightarrow> - 1 < q \<and> of_int \<lfloor>q\<rfloor> = q \<and> q \<le> 9007199254740991
      | _ \<Rightarrow> False)"

definition length_value :: "jsval \<Rightarrow> nat" where
  "length_value v = (case v of JNum (Fin q) \<Rightarrow> nat \<lfloor>q\<rfloor> | _ \<Rightarrow> 0)"

text \<open>The property key of an array index: its decimal numeral.\<close>

function decimal :: "nat \<Rightarrow> string" where
  "decimal n =
     (if n < 10 then [''0123456789'' ! n]
      else decimal (n div 10) @ [''0123456789'' ! (n mod 10)])"
  by pat_completeness auto
termination
  by (relation "measure id") auto

text \<open>The values of the own properties of an object, one for each key.\<close>

definition own_values :: "js_object \<Rightarrow> jsval list" where
  "own_values obj = map (lookup obj) (remdups (map fst obj))"

definition some :: "js_object \<Rightarrow> (jsval \<Rightarrow> bool) \<Rightarrow> bool" where
  "some collection predicate =
     (if isLength (lookup collection ''length'') then
        list_ex (\<lambda>index. predicate (lookup collection (decimal index)))
          [0 ..< length_value (lookup collection ''length'')]
      else list_ex predicate (own_values collection))"

definition hasEmptyArray :: "js_object \<Rightarrow> bool" where
  "hasEmptyArray criteria =
     some criteria (\<lambda>val. case val of JArr xs \<Rightarrow> length xs = 0 | _ \<Rightarrow> False)"

subsection \<open>The table of the object-relational mapper\<close>

text \<open>
  \<open>MassiveTableType<T, Insert, Update>\<close> is an interface: the operations are parameters,
  with the result types the interface declares (\<open>T[]\<close> a list, \<open>T | null\<close> an option, the
  count a string or null). A criteria object and an options object are objects; an
  argument that may be left out is an option, \<open>None\<close> for undefined. An id is a number or
  a string, and \<open>findOne\<close> takes either an id or a criteria object, so both are values.
  Every operation may reject. The operations overloaded on a criteria object and on an id
  are two fields.
\<close>

record ('t, 'i, 'u) MassiveTableType =
  massive_destroy :: "js_object \<Rightarrow> js_object option \<Rightarrow> js_error + 't list"
  massive_destroy_id :: "jsval \<Rightarrow> js_object option \<Rightarrow> js_error + 't option"
  massive_insert :: "'i \<Rightarrow> js_object option \<Rightarrow> js_error + 't option"
  massive_insert_all :: "'i list \<Rightarrow> js_object option \<Rightarrow> js_error + 't list"
  massive_update :: "js_object \<Rightarrow> 'u \<Rightarrow> js_object option \<Rightarrow> js_error + 't list"
  massive_update_id :: "jsval \<Rightarrow> 'u \<Rightarrow> js_object option \<Rightarrow> js_error + 't option"
  massive_save :: "'i \<Rightarrow> js_object option \<Rightarrow> js_error + 't"
  massive_find :: "js_object option \<Rightarrow> js_object option \<Rightarrow> js_error + 't list"
  massive_findOne :: "jsval \<Rightarrow> js_object option \<Rightarrow> js_error + 't option"
  massive_count :: "js_object option \<Rightarrow> js_error + string option"

text \<open>A call made to the table, with the arguments it was given.\<close>

datatype ('i, 'u) table_call =
    Destroy js_object "js_object option"
  | DestroyId jsval "js_object option"
  | Insert 'i "js_object option"
  | InsertAll "'i list" "js_object option"
  | Update js_object 'u "js_object option"
  | UpdateId jsval 'u "js_object option"
  | Save 'i "js_object option"
  | Find "js_object option" "js_object option"
  | FindOne jsval "js_object option"
  | Count "js_object option"
  | Script string js_object

text \<open>
  \<open>PantryView\<close>, and \<open>PantryTable\<close> which extends it with no field of its own. The
  \<open>scripts\<close> object maps a script name to a function from a parameter object to rows;
  \<open>None\<close> is a scripts object that is undefined or null.
\<close>

record ('t, 'i, 'u) PantryView =
  table :: "('t, 'i, 'u) MassiveTableType"
  scripts :: "(string \<Rightarrow> (js_object \<Rightarrow> js_error + jsval list) option) option"
  defaultRetrievalOptions :: js_object

type_synonym ('t, 'i, 'u) PantryTable = "('t, 'i, 'u) PantryView"

text \<open>
  Object spread, \<open>{ ...target, ...source }\<close>: every own property of the source is
  assigned, in order; a key the target has keeps its place, a new key goes last.
  Spreading undefined adds nothing.
\<close>

fun assign :: "string \<Rightarrow> jsval \<Rightarrow> js_object \<Rightarrow> js_object" where
  "assign k v [] = [(k, v)]"
| "assign k v (p # ps) = (if fst p = k then (k, v) # ps else p # assign k v ps)"

definition spread :: "js_object \<Rightarrow> js_object option \<Rightarrow> js_object" where
  "spread target source =
     (case source of None \<Rightarrow> target | Some src \<Rightarrow> fold (\<lambda>(k, v). assign k v) src target)"

text \<open>
  A method of the wrapper gives what it returns (or the error it throws) and the calls
  it made to the table.
\<close>

type_synonym ('a, 'i, 'u) table_run = "(js_error + 'a) \<times> ('i, 'u) table_call list"

definition PantryView_findOne ::
  "('t, 'i, 'u) PantryView \<Rightarrow> jsval \<Rightarrow> js_object option \<Rightarrow> ('t option, 'i, 'u) table_run" where
  "PantryView_findOne this criteria options =
     (massive_findOne (table this) criteria None, [FindOne criteria None])"

definition PantryView_find ::
  "('t, 'i, 'u) PantryView \<Rightarrow> js_object option \<Rightarrow> js_object option \<Rightarrow> ('t list, 'i, 'u) table_run" where
  "PantryView_find this criteria options =
     (if (case criteria of None \<Rightarrow> False | Some c \<Rightarrow> hasEmptyArray c) then (Inr [], [])
      else
        (let merged = Some (spread (spread [] (Some (defaultRetrievalOptions this))) options)
         in (massive_find (table this) criteria merged, [Find criteria merged])))"

definition PantryView_count ::
  "('t, 'i, 'u) PantryView \<Rightarrow> js_object option \<Rightarrow> (string option, 'i, 'u) table_run" where
  "PantryView_count this criteria =
     (if (case criteria of None \<Rightarrow> False | Some c \<Rightarrow> hasEmptyArray c) then (Inr (Some ''0''), [])
      else (massive_count (table this) criteria, [Count criteria]))"

definition PantryView_script ::
  "('t, 'i, 'u) PantryView \<Rightarrow> string \<Rightarrow> js_error + (js_object \<Rightarrow> js_error + jsval list)" where
  "PantryView_script this scriptName =
     (case scripts this of
        None \<Rightarrow> Inl (Error ''No scripts available for this table'')
      | Some own \<Rightarrow>
          (case own scriptName of
             None \<Rightarrow> Inl (Error (''Script '' @ scriptName @ '' does not exist on this table''))
           | Some f \<Rightarrow> Inr f))"

definition PantryTable_insertOne ::
  "('t, 'i, 'u) PantryTable \<Rightarrow> 'i \<Rightarrow> js_object option \<Rightarrow> ('t option, 'i, 'u) table_run" where
  "PantryTable_insertOne this object options =
     (massive_insert (table this) object options, [Insert object options])"

definition PantryTable_insert ::
  "('t, 'i, 'u) PantryTable \<Rightarrow> 'i list \<Rightarrow> js_object option \<Rightarrow> ('t list, 'i, 'u) table_run" where
  "PantryTable_insert this objects options =
     (if length objects = 0 then (Inr [], [])
      else (massive_insert_all (table this) objects options, [InsertAll objects options]))"

definition PantryTable_save ::
  "('t, 'i, 'u) PantryTable \<Rightarrow> 'i \<Rightarrow> ('t option, 'i, 'u) table_run" where
  "PantryTable_save this object =
     (map_sum id Some (massive_save (table this) object None), [Save object None])"

definition PantryTable_updateOne ::
  "('t, 'i, 'u) PantryTable \<Rightarrow> jsval \<Rightarrow> 'u \<Rightarrow> js_object option \<Rightarrow> ('t option, 'i, 'u) table_run" where
  "PantryTable_updateOne this id' updates options =
     (massive_update_id (table this) id' updates options, [UpdateId id' updates options])"

definition PantryTable_update ::
  "('t, 'i, 'u) PantryTable \<Rightarrow> js_object \<Rightarrow> 'u \<Rightarrow> ('t list, 'i, 'u) table_run" where
  "PantryTable_update this criteria updates =
     (if hasEmptyArray criteria then (Inr [], [])
      else (massive_update (table this) criteria updates None, [Update criteria updates None]))"

definition PantryTable_destroyOne ::
  "('t, 'i, 'u) PantryTable \<Rightarrow> jsval \<Rightarrow> ('t option, 'i, 'u) table_run" where
  "PantryTable_destroyOne this id' =
     (massive_destroy_id (table this) id' None, [DestroyId id' None])"

definition PantryTable_destroy ::
  "('t, 'i, 'u) PantryTable \<Rightarrow> js_object \<Rightarrow> ('t list, 'i, 'u) table_run" where
  "PantryTable_destroy this criteria =
     (if hasEmptyArray criteria then (Inr [], [])
      else (massive_destroy (table this) criteria None, [Destroy criteria None]))"

subsection \<open>The base DAO classes\<close>

text \<open>
  An abstract class is a record of what a subclass supplies: \<open>getTable\<close> and the hooks
  it may override (\<open>defaultMapper\<close>, \<open>sanitizeInsertRecord\<close>, and in \<open>BaseDAO\<close>
  \<open>sanitizeUpdateRecord\<close>; each returns its argument unless overridden). \<open>'c\<close> is the
  connection. The methods of \<open>CreateAndReadDAO\<close> are defined on every extension of its
  record, so \<open>BaseDAO\<close> inherits them.

  \<open>defaultMapper\<close> is called in two ways. \<open>this.defaultMapper(record)\<close> calls it on the
  DAO with the one argument. \<open>records.map(this.defaultMapper)\<close> hands the function over
  detached: \<open>Array.prototype.map\<close> calls it with \<open>this\<close> undefined and with the
  arguments row, index and array. So the hook is a function of the \<open>this\<close> it gets, the
  row, and the index and array when they are passed; and it may throw (an override that
  reads a field of \<open>this\<close> throws a TypeError when \<open>this\<close> is undefined).
\<close>

datatype receiver = This | Undefined

record ('c, 't, 'i, 'u) CreateAndReadDAO =
  getTable :: "'c \<Rightarrow> js_error + ('t, 'i, 'u) PantryTable"
  defaultMapper :: "receiver \<Rightarrow> 't \<Rightarrow> (nat \<times> 't list) option \<Rightarrow> js_error + 't"
  sanitizeInsertRecord :: "'i \<Rightarrow> 'i"

record ('c, 't, 'i, 'u) BaseDAO = "('c, 't, 'i, 'u) CreateAndReadDAO" +
  sanitizeUpdateRecord :: "'u \<Rightarrow> 'u"

text \<open>What the DAO prints: the arguments of its one \<open>console.error\<close> and its one
  \<open>console.warn\<close>.\<close>

datatype ('t, 'i) console_entry =
    MassiveCountReturnedNaN "string option" jsnum "js_object option"
  | InsertedNumberMismatch "'t list" "'i list" "'i list"

record ('a, 't, 'i, 'u) dao_run =
  returned :: "js_error + 'a"
  table_calls :: "('i, 'u) table_call list"
  console :: "('t, 'i) console_entry list"

definition thrown :: "js_error \<Rightarrow> ('a, 't, 'i, 'u) dao_run" where
  "thrown e = \<lparr>returned = Inl e, table_calls = [], console = []\<rparr>"

text \<open>
  The method awaits one call of the wrapper and returns what \<open>f\<close> makes of its result,
  or throws what \<open>f\<close> throws.
\<close>

definition returning ::
  "('a \<Rightarrow> js_error + 'b) \<Rightarrow> ('a, 'i, 'u) table_run \<Rightarrow> ('b, 't, 'i, 'u) dao_run" where
  "returning f run =
     (case run of
        (Inl e, cs) \<Rightarrow> \<lparr>returned = Inl e, table_calls = cs, console = []\<rparr>
      | (Inr result, cs) \<Rightarrow> \<lparr>returned = f result, table_calls = cs, console = []\<rparr>)"

text \<open>\<open>record ? this.defaultMapper(record) : null\<close>, on a row (an object) or null.\<close>

definition mapped_or_null ::
  "('c, 't, 'i, 'u, 'z) CreateAndReadDAO_scheme \<Rightarrow> 't option \<Rightarrow> js_error + 't option" where
  "mapped_or_null this record =
     (case record of
        None \<Rightarrow> Inr None
      | Some r \<Rightarrow>
          (case defaultMapper this This r None of Inl e \<Rightarrow> Inl e | Inr mapped \<Rightarrow> Inr (Some mapped)))"

text \<open>
  \<open>Array.prototype.map\<close>: the callback gets the element, its index and the array, in
  order; the first call that throws ends the loop.
\<close>

fun array_map_from ::
  "('a \<Rightarrow> nat \<Rightarrow> 'a list \<Rightarrow> js_error + 'b) \<Rightarrow> 'a list \<Rightarrow> nat \<Rightarrow> 'a list \<Rightarrow> js_error + 'b list" where
  "array_map_from f array index [] = Inr []"
| "array_map_from f array index (x # xs) =
     (case f x index array of
        Inl e \<Rightarrow> Inl e
      | Inr y \<Rightarrow>
          (case array_map_from f array (Suc index) xs of
             Inl e \<Rightarrow> Inl e
           | Inr ys \<Rightarrow> Inr (y # ys)))"

text \<open>\<open>records.map(this.defaultMapper)\<close>.\<close>

definition mapped_all ::
  "('c, 't, 'i, 'u, 'z) CreateAndReadDAO_scheme \<Rightarrow> 't list \<Rightarrow> js_error + 't list" where
  "mapped_all this records =
     array_map_from (\<lambda>row index array. defaultMapper this Undefined row (Some (index, array)))
       records 0 records"

text \<open>\<open>Number(count)\<close> on a string or null: \<open>Number(null)\<close> is 0.\<close>

definition Number :: "string option \<Rightarrow> jsnum" where
  "Number count = (case count of None \<Rightarrow> Fin 0 | Some str \<Rightarrow> Number_of_string str)"

definition DAO_script ::
  "('c, 't, 'i, 'u, 'z) CreateAndReadDAO_scheme \<Rightarrow> 'c \<Rightarrow> string \<Rightarrow> js_object
     \<Rightarrow> (jsval list, 't, 'i, 'u) dao_run" where
  "DAO_script this db scriptName params =
     (case getTable this db of
        Inl e \<Rightarrow> thrown e
      | Inr table' \<Rightarrow>
          (case PantryView_script table' scriptName of
             Inl e \<Rightarrow> thrown e
           | Inr f \<Rightarrow>
               \<lparr>returned = f params, table_calls = [Script scriptName params], console = []\<rparr>))"

definition findById ::
  "('c, 't, 'i, 'u, 'z) CreateAndReadDAO_scheme \<Rightarrow> 'c \<Rightarrow> jsval \<Rightarrow> ('t option, 't, 'i, 'u) dao_run" where
  "findById this db id' =
     (case getTable this db of
        Inl e \<Rightarrow> thrown e
      | Inr table' \<Rightarrow> returning (mapped_or_null this) (PantryView_findOne table' id' None))"

definition findOneFor ::
  "('c, 't, 'i, 'u, 'z) CreateAndReadDAO_scheme \<Rightarrow> 'c \<Rightarrow> js_object \<Rightarrow> ('t option, 't, 'i, 'u) dao_run" where
  "findOneFor this db criteria =
     (case getTable this db of
        Inl e \<Rightarrow> thrown e
      | Inr table' \<Rightarrow>
          returning (mapped_or_null this) (PantryView_findOne table' (JObj criteria) None))"

definition findAll ::
  "('c, 't, 'i, 'u, 'z) CreateAndReadDAO_scheme \<Rightarrow> 'c \<Rightarrow> js_object option
     \<Rightarrow> ('t list, 't, 'i, 'u) dao_run" where
  "findAll this db options =
     (case getTable this db of
        Inl e \<Rightarrow> thrown e
      | Inr table' \<Rightarrow> returning (mapped_all this) (PantryView_find table' None options))"

definition findAllFor ::
  "('c, 't, 'i, 'u, 'z) CreateAndReadDAO_scheme \<Rightarrow> 'c \<Rightarrow> js_object \<Rightarrow> js_object option
     \<Rightarrow> ('t list, 't, 'i, 'u) dao_run" where
  "findAllFor this db criteria options =
     (case getTable this db of
        Inl e \<Rightarrow> thrown e
      | Inr table' \<Rightarrow>
          returning (mapped_all this) (PantryView_find table' (Some criteria) options))"

definition DAO_count ::
  "('c, 't, 'i, 'u, 'z) CreateAndReadDAO_scheme \<Rightarrow> 'c \<Rightarrow> js_object option
     \<Rightarrow> (jsnum, 't, 'i, 'u) dao_run" where
  "DAO_count this db criteria =
     (case getTable this db of
        Inl e \<Rightarrow> thrown e
      | Inr table' \<Rightarrow>
          (case PantryView_count table' criteria of
             (Inl e, cs) \<Rightarrow> \<lparr>returned = Inl e, table_calls = cs, console = []\<rparr>
           | (Inr count, cs) \<Rightarrow>
               (let countAsNumber = Number count in
                \<lparr>returned = Inr countAsNumber, table_calls = cs,
                 console = (if isNaN countAsNumber
                            then [MassiveCountReturnedNaN count countAsNumber criteria] else [])\<rparr>)))"

definition DAO_insert ::
  "('c, 't, 'i, 'u, 'z) CreateAndReadDAO_scheme \<Rightarrow> 'c \<Rightarrow> 'i \<Rightarrow> js_object option
     \<Rightarrow> ('t option, 't, 'i, 'u) dao_run" where
  "DAO_insert this db record options =
     (case getTable this db of
        Inl e \<Rightarrow> thrown e
      | Inr table' \<Rightarrow>
          (let sanitizedRecord = sanitizeInsertRecord this record in
           returning (mapped_or_null this)
             (PantryTable_insertOne table' sanitizedRecord options)))"

definition batchInsert ::
  "('c, 't, 'i, 'u, 'z) CreateAndReadDAO_scheme \<Rightarrow> 'c \<Rightarrow> 'i list \<Rightarrow> ('t list, 't, 'i, 'u) dao_run" where
  "batchInsert this db records =
     (let sanitizedRecords = map (sanitizeInsertRecord this) records in
      case getTable this db of
        Inl e \<Rightarrow> thrown e
      | Inr table' \<Rightarrow>
          (case PantryTable_insert table' sanitizedRecords None of
             (Inl e, cs) \<Rightarrow> \<lparr>returned = Inl e, table_calls = cs, console = []\<rparr>
           | (Inr newRecords, cs) \<Rightarrow>
               \<lparr>returned = mapped_all this newRecords, table_calls = cs,
                console = (if length newRecords \<noteq> length sanitizedRecords
                           then [InsertedNumberMismatch newRecords sanitizedRecords records]
                           else [])\<rparr>))"

definition batchInsertWithIds ::
  "('c, 't, 'i, 'u, 'z) CreateAndReadDAO_scheme \<Rightarrow> 'c \<Rightarrow> 'i list \<Rightarrow> js_object option
     \<Rightarrow> ('t list, 't, 'i, 'u) dao_run" where
  "batchInsertWithIds this db records options =
     (let sanitizedRecords = map (sanitizeInsertRecord this) records in
      case getTable this db of
        Inl e \<Rightarrow> thrown e
      | Inr table' \<Rightarrow>
          returning (mapped_all this) (PantryTable_insert table' sanitizedRecords options))"

definition DAO_save ::
  "('c, 't, 'i, 'u, 'z) CreateAndReadDAO_scheme \<Rightarrow> 'c \<Rightarrow> 'i \<Rightarrow> ('t option, 't, 'i, 'u) dao_run" where
  "DAO_save this db record =
     (case getTable this db of
        Inl e \<Rightarrow> thrown e
      | Inr table' \<Rightarrow>
          (let sanitizedRecord = sanitizeInsertRecord this record in
           returning (mapped_or_null this) (PantryTable_save table' sanitizedRecord)))"

definition updateById ::
  "('c, 't, 'i, 'u, 'z) BaseDAO_scheme \<Rightarrow> 'c \<Rightarrow> jsval \<Rightarrow> 'u \<Rightarrow> ('t option, 't, 'i, 'u) dao_run" where
  "updateById this db id' record =
     (case getTable this db of
        Inl e \<Rightarrow> thrown e
      | Inr table' \<Rightarrow>
          (let sanitizedRecord = sanitizeUpdateRecord this record in
           returning (mapped_or_null this)
             (PantryTable_updateOne table' id' sanitizedRecord None)))"

definition DAO_update ::
  "('c, 't, 'i, 'u, 'z) BaseDAO_scheme \<Rightarrow> 'c \<Rightarrow> js_object \<Rightarrow> 'u \<Rightarrow> ('t list, 't, 'i, 'u) dao_run" where
  "DAO_update this db criteria record =
     (case getTable this db of
        Inl e \<Rightarrow> thrown e
      | Inr table' \<Rightarrow>
          (let sanitizedRecord = sanitizeUpdateRecord this record in
           returning (mapped_all this) (PantryTable_update table' criteria sanitizedRecord)))"

definition removeById ::
  "('c, 't, 'i, 'u, 'z) BaseDAO_scheme \<Rightarrow> 'c \<Rightarrow> jsval \<Rightarrow> ('t option, 't, 'i, 'u) dao_run" where
  "removeById this db id' =
     (case getTable this db of
        Inl e \<Rightarrow> thrown e
      | Inr table' \<Rightarrow> returning (\<lambda>removed. Inr removed) (PantryTable_destroyOne table' id'))"

definition removeAllFor ::
  "('c, 't, 'i, 'u, 'z) BaseDAO_scheme \<Rightarrow> 'c \<Rightarrow> js_object \<Rightarrow> ('t list, 't, 'i, 'u) dao_run" where
  "removeAllFor this db criteria =
     (case getTable this db of
        Inl e \<Rightarrow> thrown e
      | Inr table' \<Rightarrow> returning (\<lambda>removed. Inr removed) (PantryTable_destroy table' criteria))"

section \<open>The ingredient form (ui/src/components/forms/BasicForm.tsx)\<close>

text \<open>
  The component's state is its four \<open>useState\<close> cells. A handler is a function from the
  state it was rendered with to the state after all its \<open>set...\<close> calls, applied in the
  order the handler makes them: the component shows the alert of \<open>submitMessage\<close> in that
  final state, and shows none when it is null.
\<close>

record IngredientFormData =
  name :: string
  unit :: string
  cost_per_unit :: string
  vendor_id :: string

datatype severity = success | error

datatype submit_message = SubmitMessage severity jsval

text \<open>\<open>errors\<close> is a partial object: the keys that were assigned, with their texts.\<close>

record form =
  formData :: IngredientFormData
  errors :: "(string \<times> string) list"
  isSubmitting :: bool
  submitMessage :: "submit_message option"

text \<open>What \<open>fetch\<close> is called with; the body is the value that \<open>JSON.stringify\<close> writes.\<close>

record request =
  url :: string
  http_method :: string
  headers :: "(string \<times> string) list"
  request_body :: jsval

text \<open>
  What \<open>fetch\<close> answers: it rejects, or it resolves with a response, of which the
  handler reads \<open>ok\<close> and (when not ok) what \<open>json()\<close> resolves to or rejects with.
\<close>

datatype fetched = Rejected js_error | Resolved bool "js_error + jsval"

text \<open>\<open>JSON.stringify\<close> writes NaN and the infinities as null.\<close>

definition stringify_number :: "jsnum \<Rightarrow> jsval" where
  "stringify_number n = (case n of Fin q \<Rightarrow> JNum (Fin q) | _ \<Rightarrow> JNull)"

definition newErrors :: "IngredientFormData \<Rightarrow> (string \<times> string) list" where
  "newErrors fd =
     (if trim (name fd) = [] then [(''name'', ''Ingredient name is required'')] else [])
     @ (if unit fd = [] then [(''unit'', ''Unit is required'')] else [])
     @ (if trim (cost_per_unit fd) = [] then [(''cost_per_unit'', ''Cost per unit is required'')]
        else (let cost = parseFloat (cost_per_unit fd) in
              if isNaN cost \<or> js_less cost (Fin 0)
              then [(''cost_per_unit'', ''Please enter a valid positive number'')] else []))
     @ (if vendor_id fd = [] then [(''vendor_id'', ''Vendor is required'')] else [])"

text \<open>\<open>validateForm\<close> sets the errors and returns whether there is none.\<close>

definition validateForm :: "form \<Rightarrow> bool \<times> form" where
  "validateForm st =
     (length (newErrors (formData st)) = 0, st\<lparr>errors := newErrors (formData st)\<rparr>)"

definition handleClear :: "form \<Rightarrow> form" where
  "handleClear st =
     st\<lparr>formData := \<lparr>name = '''', unit = '''', cost_per_unit = '''', vendor_id = ''''\<rparr>,
        errors := [],
        submitMessage := None\<rparr>"

definition submit_request :: "IngredientFormData \<Rightarrow> request" where
  "submit_request fd =
     \<lparr>url = ''http://localhost:5001/ingredient'',
      http_method = ''POST'',
      headers = [(''Content-Type'', ''application/json'')],
      request_body =
        JObj [(''name'', JStr (trim (name fd))),
              (''unit'', JStr (unit fd)),
              (''cost_per_unit'', stringify_number (parseFloat (cost_per_unit fd))),
              (''vendor_id'', stringify_number (parseInt (vendor_id fd)))]\<rparr>"

definition network_error :: "form \<Rightarrow> form" where
  "network_error st =
     st\<lparr>submitMessage := Some (SubmitMessage error (JStr ''Network error. Please try again.''))\<rparr>"

text \<open>
  \<open>handleSubmit\<close>, given what \<open>fetch\<close> answers to a request: the final state and the
  requests sent. The \<open>catch\<close> block takes a rejected fetch, a rejected \<open>response.json()\<close>
  and the TypeError of reading \<open>message\<close> off null; the \<open>finally\<close> block runs whenever
  the \<open>try\<close> block was entered.
\<close>

definition handleSubmit :: "(request \<Rightarrow> fetched) \<Rightarrow> form \<Rightarrow> form \<times> request list" where
  "handleSubmit fetch st =
     (case validateForm st of
        (False, st1) \<Rightarrow> (st1, [])
      | (True, st1) \<Rightarrow>
          (let st2 = st1\<lparr>isSubmitting := True, submitMessage := None\<rparr>;
               req = submit_request (formData st);
               st3 =
                 (case fetch req of
                    Rejected e \<Rightarrow> network_error st2
                  | Resolved ok json \<Rightarrow>
                      if ok then
                        handleClear
                          (st2\<lparr>submitMessage :=
                                 Some (SubmitMessage success (JStr ''Ingredient added successfully!''))\<rparr>)
                      else
                        (case json of
                           Inl e \<Rightarrow> network_error st2
                         | Inr errorData \<Rightarrow>
                             (case get_field errorData ''message'' of
                                Inl e \<Rightarrow> network_error st2
                              | Inr m \<Rightarrow>
                                  st2\<lparr>submitMessage :=
                                        Some (SubmitMessage error
                                               (if falsy m then JStr ''Failed to add ingredient''
                                                else m))\<rparr>)))
           in (st3\<lparr>isSubmitting := False\<rparr>, [req])))"

section \<open>Instances used in the examples\<close>

text \<open>
  A database held in memory, to run the handlers on: the state is the list of ingredient
  rows, an inserted row gets the next id, and the entity table holds the one vendor of
  id 1.
\<close>

definition row_with_id :: "jsval \<Rightarrow> jsval \<Rightarrow> bool" where
  "row_with_id id' row = (case row of JObj kvs \<Rightarrow> lookup kvs ''id'' = id' | _ \<Rightarrow> False)"

definition memory_db :: "jsval list database" where
  "memory_db =
     \<lparr>ingredient_find = (\<lambda>rows. Inr (JArr rows)),
      ingredient_findOne =
        (\<lambda>id' rows. Inr (case List.find (row_with_id id') rows of None \<Rightarrow> JNull | Some row \<Rightarrow> row)),
      ingredient_insert =
        (\<lambda>data rows.
           (case data of
              JObj kvs \<Rightarrow>
                (let row = JObj ((''id'', JNum (Fin (of_nat (length rows + 1)))) # kvs)
                 in (Inr row, rows @ [row]))
            | _ \<Rightarrow> (Inl (Error ''not a record''), rows))),
      entity_findOne =
        (\<lambda>id' rows. Inr (if id' = JNum (Fin 1)
                          then JObj [(''id'', JNum (Fin 1)), (''fname'', JStr ''Local Farm Co.'')]
                          else JNull))\<rparr>"

text \<open>A table over rows that are values: it holds one row and counts in a given text.\<close>

definition fixed_table :: "jsval \<Rightarrow> string option \<Rightarrow> (jsval, jsval, jsval) MassiveTableType" where
  "fixed_table row counted =
     \<lparr>massive_destroy = (\<lambda>criteria options. Inr [row]),
      massive_destroy_id = (\<lambda>id' options. Inr (Some row)),
      massive_insert = (\<lambda>data options. Inr (Some row)),
      massive_insert_all = (\<lambda>data options. Inr (map (\<lambda>d. row) data)),
      massive_update = (\<lambda>criteria fields options. Inr [row]),
      massive_update_id = (\<lambda>id' fields options. Inr (Some row)),
      massive_save = (\<lambda>data options. Inr row),
      massive_find = (\<lambda>criteria options. Inr [row]),
      massive_findOne = (\<lambda>criteria options. Inr (Some row)),
      massive_count = (\<lambda>criteria. Inr counted)\<rparr>"

definition fixed_view ::
  "jsval \<Rightarrow> string option \<Rightarrow> (jsval, jsval, jsval) PantryView" where
  "fixed_view row counted =
     \<lparr>table = fixed_table row counted,
      scripts = Some (\<lambda>scriptName. if scriptName = ''byVendor'' then Some (\<lambda>params. Inr [row]) else None),
      defaultRetrievalOptions = []\<rparr>"

text \<open>A DAO whose \<open>defaultMapper\<close> is overridden: it marks every row it maps.\<close>

definition mark :: "jsval \<Rightarrow> jsval" where
  "mark row = (case row of JObj kvs \<Rightarrow> JObj (assign ''mapped'' (JBool True) kvs) | _ \<Rightarrow> row)"

definition marking_dao :: "jsval \<Rightarrow> string option \<Rightarrow> (unit, jsval, jsval, jsval) BaseDAO" where
  "marking_dao row counted =
     \<lparr>getTable = (\<lambda>db. Inr (fixed_view row counted)),
      defaultMapper = (\<lambda>this row rest. Inr (mark row)),
      sanitizeInsertRecord = (\<lambda>record. record),
      sanitizeUpdateRecord = (\<lambda>record. record)\<rparr>"

section \<open>Properties of the ingredient routes\<close>

lemma get_field_simps [simp]:
  "get_field (JObj kvs) k = Inr (lookup kvs k)"
  "get_field JNull k =
     Inl (TypeError (''Cannot read properties of null (reading '' @ [CHR 0x27] @ k
                      @ [CHR 0x27] @ '')''))"
  "get_field JUndefined k =
     Inl (TypeError (''Cannot read properties of undefined (reading '' @ [CHR 0x27] @ k
                      @ [CHR 0x27] @ '')''))"
  by (simp_all add: get_field_def)

lemma destructure_object:
  "destructure (JObj kvs) =
     Inr (lookup kvs ''name'', lookup kvs ''unit'', lookup kvs ''cost_per_unit'',
          lookup kvs ''vendor_id'')"
  by (simp add: destructure_def)

text \<open>
  Claim C1. A POST whose body holds \<open>name\<close> and \<open>unit\<close> as non-empty strings,
  \<open>cost_per_unit\<close> as a number that is not negative and \<open>vendor_id\<close> as a positive
  number, whose vendor lookup answers with a row and whose insert answers with the created
  row: the handler looks the vendor up, inserts the record with the name trimmed and the
  other three fields as they came, and responds 201 with the envelope
  \<open>{ message, ingredient }\<close> around the created row.
\<close>

theorem post_creates_ingredient:
  assumes "lookup kvs ''name'' = JStr n" and "n \<noteq> []"
    and "lookup kvs ''unit'' = JStr u" and "u \<noteq> []"
    and "lookup kvs ''cost_per_unit'' = JNum c" and cost: "js_less_eq (Fin 0) c"
    and "lookup kvs ''vendor_id'' = JNum v" and positive: "js_less (Fin 0) v"
    and "entity_findOne db (JNum v) s = Inr (JObj vendor)"
    and "ingredient_insert db
           (JObj [(''name'', JStr (trim n)), (''unit'', JStr u),
                  (''cost_per_unit'', JNum c), (''vendor_id'', JNum v)]) s = (Inr created, s')"
  shows "router_post db (JObj kvs) s =
           \<lparr>response =
              \<lparr>status = 201,
               body = JObj [(''message'', JStr ''Ingredient created successfully''),
                            (''ingredient'', created)]\<rparr>,
            db_calls =
              [EntityFindOne (JNum v),
               IngredientInsert
                 (JObj [(''name'', JStr (trim n)), (''unit'', JStr u),
                        (''cost_per_unit'', JNum c), (''vendor_id'', JNum v)])],
            console_error = [],
            db_state = s'\<rparr>"
proof -
  have c0: "\<not> js_less c (Fin 0)"
    using cost by (cases c) auto
  have v0: "\<not> js_less_eq v (Fin 0)" "v \<noteq> NaN" "v \<noteq> Fin 0"
    using positive by (cases v; auto)+
  show ?thesis
    using assms c0 v0
    by (simp add: router_post_def destructure_object not_number_or_negative_def
        not_number_or_not_positive_def call_trim_def reply_def)
qed

theorem post_creates_ingredient_witness:
  "router_post memory_db
     (JObj [(''name'', JStr '' Tomatoes ''), (''unit'', JStr ''lb''),
            (''cost_per_unit'', JNum (Fin (5 / 2))), (''vendor_id'', JNum (Fin 1))]) [] =
     \<lparr>response =
        \<lparr>status = 201,
         body = JObj [(''message'', JStr ''Ingredient created successfully''),
                      (''ingredient'',
                       JObj [(''id'', JNum (Fin 1)), (''name'', JStr ''Tomatoes''),
                             (''unit'', JStr ''lb''), (''cost_per_unit'', JNum (Fin (5 / 2))),
                             (''vendor_id'', JNum (Fin 1))])]\<rparr>,
      db_calls =
        [EntityFindOne (JNum (Fin 1)),
         IngredientInsert
           (JObj [(''name'', JStr ''Tomatoes''), (''unit'', JStr ''lb''),
                  (''cost_per_unit'', JNum (Fin (5 / 2))), (''vendor_id'', JNum (Fin 1))])],
      console_error = [],
      db_state =
        [JObj [(''id'', JNum (Fin 1)), (''name'', JStr ''Tomatoes''), (''unit'', JStr ''lb''),
               (''cost_per_unit'', JNum (Fin (5 / 2))), (''vendor_id'', JNum (Fin 1))]]\<rparr>"
  using post_creates_ingredient
    [of "[(''name'', JStr '' Tomatoes ''), (''unit'', JStr ''lb''),
          (''cost_per_unit'', JNum (Fin (5 / 2))), (''vendor_id'', JNum (Fin 1))]"
        "'' Tomatoes ''" "''lb''" "Fin (5 / 2)" "Fin 1" memory_db "[]"
        "[(''id'', JNum (Fin 1)), (''fname'', JStr ''Local Farm Co.'')]"
        "JObj [(''id'', JNum (Fin 1)), (''name'', JStr ''Tomatoes''), (''unit'', JStr ''lb''),
               (''cost_per_unit'', JNum (Fin (5 / 2))), (''vendor_id'', JNum (Fin 1))]"
        "[JObj [(''id'', JNum (Fin 1)), (''name'', JStr ''Tomatoes''), (''unit'', JStr ''lb''),
                (''cost_per_unit'', JNum (Fin (5 / 2))), (''vendor_id'', JNum (Fin 1))]]"]
  by (simp add: lookup_def memory_db_def trim_def is_ws_def Let_def)

text \<open>
  The handler calls the database only after the four checks on the body, and calls
  \<open>insert\<close> only after a vendor lookup that answered with a truthy value.
\<close>

lemma router_post_calls:
  "db_calls (router_post db req_body s) = [] \<and> db_state (router_post db req_body s) = s
   \<or> (\<exists>v. db_calls (router_post db req_body s) = [EntityFindOne v]
            \<and> db_state (router_post db req_body s) = s)
   \<or> (\<exists>v data vendor.
          db_calls (router_post db req_body s) = [EntityFindOne v, IngredientInsert data]
          \<and> entity_findOne db v s = Inr vendor \<and> falsy vendor = False
          \<and> db_state (router_post db req_body s) = snd (ingredient_insert db data s)
          \<and> status (response (router_post db req_body s)) \<noteq> 400)"
  by (simp add: router_post_def reply_def caught_def Let_def
      split: sum.splits prod.splits)

text \<open>
  Claim C3. Whenever the POST handler responds 400, it has made no insert call and the
  state of the database is the one it started from; and in every run that does call
  \<open>insert\<close>, the calls are exactly the vendor lookup followed by the insert, the lookup
  having answered with a row.
\<close>

theorem post_rejected_inserts_nothing:
  "(status (response (router_post db req_body s)) = 400 \<longrightarrow>
      db_state (router_post db req_body s) = s
      \<and> list_all (\<lambda>c. case c of IngredientInsert data \<Rightarrow> False | _ \<Rightarrow> True)
            (db_calls (router_post db req_body s)))
   \<and> (\<forall>data. IngredientInsert data \<in> set (db_calls (router_post db req_body s)) \<longrightarrow>
         (\<exists>v vendor. db_calls (router_post db req_body s) = [EntityFindOne v, IngredientInsert data]
                      \<and> entity_findOne db v s = Inr vendor \<and> falsy vendor = False))"
  using router_post_calls [of db req_body s] by auto

theorem post_rejected_inserts_nothing_witness:
  "status (response (router_post memory_db
       (JObj [(''name'', JStr ''Salt''), (''unit'', JStr ''g''),
              (''cost_per_unit'', JNum (Fin 1)), (''vendor_id'', JNum (Fin 7))]) [])) = 400
   \<and> db_state (router_post memory_db
       (JObj [(''name'', JStr ''Salt''), (''unit'', JStr ''g''),
              (''cost_per_unit'', JNum (Fin 1)), (''vendor_id'', JNum (Fin 7))]) []) = []
   \<and> list_all (\<lambda>c. case c of IngredientInsert data \<Rightarrow> False | _ \<Rightarrow> True)
        (db_calls (router_post memory_db
           (JObj [(''name'', JStr ''Salt''), (''unit'', JStr ''g''),
                  (''cost_per_unit'', JNum (Fin 1)), (''vendor_id'', JNum (Fin 7))]) []))"
proof -
  have rejected: "status (response (router_post memory_db
       (JObj [(''name'', JStr ''Salt''), (''unit'', JStr ''g''),
              (''cost_per_unit'', JNum (Fin 1)), (''vendor_id'', JNum (Fin 7))]) [])) = 400"
    by (simp add: router_post_def destructure_object lookup_def memory_db_def reply_def
        not_number_or_negative_def not_number_or_not_positive_def)
  with post_rejected_inserts_nothing
    [of memory_db "JObj [(''name'', JStr ''Salt''), (''unit'', JStr ''g''),
              (''cost_per_unit'', JNum (Fin 1)), (''vendor_id'', JNum (Fin 7))]" "[]"]
  show ?thesis by blast
qed

lemma typeof_string_iff: "typeof v = ''string'' \<longleftrightarrow> (\<exists>a. v = JStr a)"
  by (cases v) auto

lemma not_number_or_negative_iff:
  "not_number_or_negative c \<longleftrightarrow> (\<forall>x. c \<noteq> JNum x) \<or> (\<exists>x. c = JNum x \<and> js_less x (Fin 0))"
  by (cases c) (auto simp: not_number_or_negative_def)

lemma not_number_or_not_positive_iff:
  assumes "\<not> falsy v"
  shows "not_number_or_not_positive v \<longleftrightarrow>
           (\<forall>y. v \<noteq> JNum y) \<or> (\<exists>y. v = JNum y \<and> js_less y (Fin 0))"
proof (cases v)
  case (JNum y)
  with assms show ?thesis
    by (cases y) (auto simp: not_number_or_not_positive_def)
qed (auto simp: not_number_or_not_positive_def)

text \<open>
  The checks run in the order of the source and the first that fails answers: a body
  that fails an earlier check never reaches the check on \<open>vendor_id\<close>, so a negative
  \<open>vendor_id\<close> beside a negative \<open>cost_per_unit\<close>, or beside a \<open>name\<close> that is a number,
  gets the message of the earlier check.
\<close>

theorem post_vendor_id_message_counterexample:
  "response (router_post memory_db
      (JObj [(''name'', JStr ''Salt''), (''unit'', JStr ''g''),
             (''cost_per_unit'', JNum (Fin (- 1))), (''vendor_id'', JNum (Fin (- 1)))]) []) =
     \<lparr>status = 400,
      body = JObj [(''message'', JStr ''Cost per unit must be a positive number'')]\<rparr>
   \<and> response (router_post memory_db
      (JObj [(''name'', JNum (Fin 5)), (''unit'', JStr ''g''),
             (''cost_per_unit'', JNum (Fin 1)), (''vendor_id'', JNum (Fin (- 1)))]) []) =
     \<lparr>status = 400, body = JObj [(''message'', JStr ''Name and unit must be strings'')]\<rparr>
   \<and> ''Cost per unit must be a positive number'' \<noteq> ''Vendor ID must be a positive number''
   \<and> ''Name and unit must be strings'' \<noteq> ''Vendor ID must be a positive number''"
  by (simp add: router_post_def destructure_object lookup_def reply_def message_def
      not_number_or_negative_def not_number_or_not_positive_def)

text \<open>
  Claim C4, amended. The body is checked in four steps, in order, and the first step that
  fails responds 400 with that step's message, without a call to the database; the four
  messages differ from one another. A body with one of the four fields absent gets
  "Missing required fields ...". With all four fields present and truthy, a \<open>name\<close> or
  \<open>unit\<close> that is not a string gets "Name and unit must be strings". With \<open>name\<close> and
  \<open>unit\<close> non-empty strings and \<open>vendor_id\<close> truthy, a \<open>cost_per_unit\<close> that is present
  and not a number, or a negative number, gets "Cost per unit must be a positive number".
  With these three steps passed, a truthy \<open>vendor_id\<close> that is not a number, or a negative
  number, gets "Vendor ID must be a positive number". (The statement is silent on a field
  that is present and falsy, such as a \<open>vendor_id\<close> of 0.)
\<close>

theorem post_validation_in_order:
  assumes "lookup kvs ''name'' = n" and "lookup kvs ''unit'' = u"
    and "lookup kvs ''cost_per_unit'' = c" and "lookup kvs ''vendor_id'' = v"
  shows
    "(n = JUndefined \<or> u = JUndefined \<or> c = JUndefined \<or> v = JUndefined \<longrightarrow>
        router_post db (JObj kvs) s =
          \<lparr>response =
             \<lparr>status = 400,
              body = JObj [(''message'',
                JStr ''Missing required fields: name, unit, cost_per_unit, vendor_id'')]\<rparr>,
           db_calls = [], console_error = [], db_state = s\<rparr>)
     \<and> (\<not> falsy n \<and> \<not> falsy u \<and> c \<noteq> JUndefined \<and> \<not> falsy v
          \<and> ((\<forall>a. n \<noteq> JStr a) \<or> (\<forall>b. u \<noteq> JStr b)) \<longrightarrow>
        router_post db (JObj kvs) s =
          \<lparr>response =
             \<lparr>status = 400, body = JObj [(''message'', JStr ''Name and unit must be strings'')]\<rparr>,
           db_calls = [], console_error = [], db_state = s\<rparr>)
     \<and> ((\<exists>a b. n = JStr a \<and> a \<noteq> [] \<and> u = JStr b \<and> b \<noteq> []) \<and> c \<noteq> JUndefined
          \<and> \<not> falsy v
          \<and> ((\<forall>x. c \<noteq> JNum x) \<or> (\<exists>x. c = JNum x \<and> js_less x (Fin 0))) \<longrightarrow>
        router_post db (JObj kvs) s =
          \<lparr>response =
             \<lparr>status = 400,
              body = JObj [(''message'', JStr ''Cost per unit must be a positive number'')]\<rparr>,
           db_calls = [], console_error = [], db_state = s\<rparr>)
     \<and> ((\<exists>a b. n = JStr a \<and> a \<noteq> [] \<and> u = JStr b \<and> b \<noteq> [])
          \<and> (\<exists>x. c = JNum x \<and> \<not> js_less x (Fin 0)) \<and> \<not> falsy v
          \<and> ((\<forall>y. v \<noteq> JNum y) \<or> (\<exists>y. v = JNum y \<and> js_less y (Fin 0))) \<longrightarrow>
        router_post db (JObj kvs) s =
          \<lparr>response =
             \<lparr>status = 400,
              body = JObj [(''message'', JStr ''Vendor ID must be a positive number'')]\<rparr>,
           db_calls = [], console_error = [], db_state = s\<rparr>)
     \<and> distinct
          [''Missing required fields: name, unit, cost_per_unit, vendor_id'',
           ''Name and unit must be strings'',
           ''Cost per unit must be a positive number'',
           ''Vendor ID must be a positive number'']"
proof -
  have missing: "n = JUndefined \<or> u = JUndefined \<or> c = JUndefined \<or> v = JUndefined \<Longrightarrow>
      falsy n \<or> falsy u \<or> c = JUndefined \<or> falsy v"
    by auto
  have vendor: "\<not> falsy v \<Longrightarrow> (\<forall>y. v \<noteq> JNum y) \<or> (\<exists>y. v = JNum y \<and> js_less y (Fin 0)) \<Longrightarrow>
      not_number_or_not_positive v"
    by (simp add: not_number_or_not_positive_iff)
  have cost_ok: "\<And>x. c = JNum x \<Longrightarrow> \<not> js_less x (Fin 0) \<Longrightarrow> \<not> not_number_or_negative c"
    by (simp add: not_number_or_negative_def)
  have run: "router_post db (JObj kvs) s =
      (if falsy n \<or> falsy u \<or> c = JUndefined \<or> falsy v then
         reply 400 (message ''Missing required fields: name, unit, cost_per_unit, vendor_id'') [] s
       else if typeof n \<noteq> ''string'' \<or> typeof u \<noteq> ''string'' then
         reply 400 (message ''Name and unit must be strings'') [] s
       else if not_number_or_negative c then
         reply 400 (message ''Cost per unit must be a positive number'') [] s
       else if not_number_or_not_positive v then
         reply 400 (message ''Vendor ID must be a positive number'') [] s
       else router_post db (JObj kvs) s)"
    using assms by (simp add: router_post_def destructure_object)
  have first: "n = JUndefined \<or> u = JUndefined \<or> c = JUndefined \<or> v = JUndefined \<longrightarrow>
      router_post db (JObj kvs) s =
        reply 400 (message ''Missing required fields: name, unit, cost_per_unit, vendor_id'') [] s"
    using missing by (subst run) auto
  have second: "\<not> falsy n \<and> \<not> falsy u \<and> c \<noteq> JUndefined \<and> \<not> falsy v
      \<and> ((\<forall>a. n \<noteq> JStr a) \<or> (\<forall>b. u \<noteq> JStr b)) \<longrightarrow>
      router_post db (JObj kvs) s = reply 400 (message ''Name and unit must be strings'') [] s"
    by (subst run) (auto simp: typeof_string_iff)
  have third: "(\<exists>a b. n = JStr a \<and> a \<noteq> [] \<and> u = JStr b \<and> b \<noteq> []) \<and> c \<noteq> JUndefined
      \<and> \<not> falsy v
      \<and> ((\<forall>x. c \<noteq> JNum x) \<or> (\<exists>x. c = JNum x \<and> js_less x (Fin 0))) \<longrightarrow>
      router_post db (JObj kvs) s =
        reply 400 (message ''Cost per unit must be a positive number'') [] s"
    by (subst run) (auto simp: not_number_or_negative_iff)
  have fourth: "(\<exists>a b. n = JStr a \<and> a \<noteq> [] \<and> u = JStr b \<and> b \<noteq> [])
      \<and> (\<exists>x. c = JNum x \<and> \<not> js_less x (Fin 0)) \<and> \<not> falsy v
      \<and> ((\<forall>y. v \<noteq> JNum y) \<or> (\<exists>y. v = JNum y \<and> js_less y (Fin 0))) \<longrightarrow>
      router_post db (JObj kvs) s =
        reply 400 (message ''Vendor ID must be a positive number'') [] s"
    using vendor cost_ok by (subst run) auto
  from first second third fourth show ?thesis
    by (simp add: reply_def message_def)
qed

theorem post_validation_in_order_witness:
  "router_post memory_db
     (JObj [(''name'', JStr ''Salt''), (''unit'', JStr ''g''),
            (''cost_per_unit'', JNum (Fin 1)), (''vendor_id'', JNum (Fin (- 1)))]) [] =
     \<lparr>response =
        \<lparr>status = 400,
         body = JObj [(''message'', JStr ''Vendor ID must be a positive number'')]\<rparr>,
      db_calls = [], console_error = [], db_state = []\<rparr>"
  using post_validation_in_order
    [of "[(''name'', JStr ''Salt''), (''unit'', JStr ''g''),
          (''cost_per_unit'', JNum (Fin 1)), (''vendor_id'', JNum (Fin (- 1)))]"
        "JStr ''Salt''" "JStr ''g''" "JNum (Fin 1)" "JNum (Fin (- 1))" memory_db "[]"]
  by (simp add: lookup_def)

text \<open>Integers below \<open>2^53\<close> are doubles: rounding leaves them as they are.\<close>

lemma bit_length_bound: "n < 2 ^ k \<Longrightarrow> bit_length n \<le> k"
proof (induction n arbitrary: k rule: bit_length.induct)
  case (1 n)
  show ?case
  proof (cases "n = 0")
    case True
    then show ?thesis by (simp add: bit_length.simps)
  next
    case False
    with "1.prems" obtain j where k: "k = Suc j"
      by (cases k) auto
    with "1.prems" have "n div 2 < 2 ^ j"
      by auto
    with "1.IH" [OF False] have "bit_length (n div 2) \<le> j" .
    with False k show ?thesis
      by (subst bit_length.simps) simp
  qed
qed

lemma round_half_even_of_int: "round_half_even (of_int k) = k"
  by (simp add: round_half_even_def)

lemma number_of_rat_nat:
  assumes "n < 2 ^ 53"
  shows "number_of_rat (of_nat n) = Fin (of_nat n)"
proof (cases "n = 0")
  case True
  then show ?thesis by (simp add: number_of_rat_def)
next
  case False
  then have one: "(1::rat) \<le> of_nat n"
    by simp
  have "bit_length n \<le> 53"
    using assms by (rule bit_length_bound)
  then have "exponent_of (of_nat n) \<le> 52"
    using one by (simp add: exponent_of_def)
  then obtain j where j: "max (exponent_of (of_nat n)) (- 1022) - 52 = - int j"
    by (metis diff_le_0_iff_le max.bounded_iff nonpos_int_cases neg_numeral_le_numeral)
  have ulp: "pow2 (- int j) = 1 / 2 ^ j"
    by (cases "j = 0") (simp_all add: pow2_def)
  have scaled: "round_half_even (of_nat n * 2 ^ j :: rat) = int n * 2 ^ j"
    using round_half_even_of_int [of "int n * 2 ^ j"] by simp
  have small: "\<not> pow2 1024 \<le> (of_nat n :: rat)"
  proof -
    have "(of_nat n :: rat) < of_nat (2 ^ 53)"
      using assms by (simp only: of_nat_less_iff)
    then show ?thesis
      by (simp add: pow2_def)
  qed
  show ?thesis
    using False small by (simp add: number_of_rat_def Let_def j ulp scaled)
qed

lemma number_of_rat_numeral:
  "numeral w < (2::nat) ^ 53 \<Longrightarrow> number_of_rat (numeral w) = Fin (numeral w)"
  using number_of_rat_nat [of "numeral w"] by simp

lemma number_of_rat_1: "number_of_rat 1 = Fin 1"
  using number_of_rat_nat [of 1] by simp

text \<open>Beyond \<open>2^53\<close> the value is rounded, a tie to the even neighbour.\<close>

lemma floor_fraction: "\<lfloor>numeral a / numeral b :: rat\<rfloor> = numeral a div numeral b"
  by (metis floor_divide_of_int_eq of_int_numeral)

lemma number_of_rat_rounds: "number_of_rat 9007199254740993 = Fin 9007199254740992"
proof -
  have e: "exponent_of 9007199254740993 = 53"
    by (simp add: exponent_of_def bit_length.simps)
  have ulp: "pow2 1 = 2"
    by (simp add: pow2_def)
  have n: "round_half_even (9007199254740993 / 2) = 4503599627370496"
    by (simp add: round_half_even_def Let_def floor_fraction)
  have small: "\<not> pow2 1024 \<le> 9007199254740992"
    by (simp add: pow2_def)
  show ?thesis
    unfolding number_of_rat_def Let_def
    by (simp add: e ulp n small)
qed

lemma parseInt_abc: "parseInt ''abc'' = NaN"
  by (simp add: parseInt_def is_ws_def is_digit_def digit_of_def)

lemma parseInt_999999: "parseInt ''999999'' = Fin 999999"
  by (simp add: parseInt_def is_ws_def is_digit_def digit_of_def digits_value_def
      number_of_rat_numeral)

lemma parseInt_1: "parseInt ''1'' = Fin 1"
  by (simp add: parseInt_def is_ws_def is_digit_def digit_of_def digits_value_def
      number_of_rat_1)

lemma parseInt_beyond_2_53: "parseInt ''9007199254740993'' = Fin 9007199254740992"
  by (simp add: parseInt_def is_ws_def is_digit_def digit_of_def digits_value_def
      number_of_rat_rounds)

text \<open>
  \<open>parseInt\<close> reads the longest prefix of digits and drops what follows: a parameter
  that only starts with an integer is that integer.
\<close>

lemma parseInt_prefix:
  "parseInt ''1.5'' = Fin 1" "parseInt ''1abc'' = Fin 1" "parseInt ''12abc'' = Fin 12"
  by (simp_all add: parseInt_def is_ws_def is_digit_def digit_of_def digits_value_def
      number_of_rat_1 number_of_rat_numeral)

text \<open>
  What GET \<open>/:id\<close> answers, by the value of \<open>parseInt\<close> on the path parameter: NaN gives
  400 "Invalid ingredient ID" without a call to the database; a number gives one lookup
  by that number, then 404 "Ingredient not found" when the lookup answers with null (or
  any falsy value), and 200 with the row itself as the body when it answers with a row.
\<close>

lemma get_by_id_outcomes:
  "(isNaN (parseInt params_id) \<longrightarrow>
      router_get_id db params_id s =
        \<lparr>response =
           \<lparr>status = 400, body = JObj [(''message'', JStr ''Invalid ingredient ID'')]\<rparr>,
         db_calls = [], console_error = [], db_state = s\<rparr>)
   \<and> (\<not> isNaN (parseInt params_id)
        \<and> ingredient_findOne db (JNum (parseInt params_id)) s = Inr row \<and> falsy row \<longrightarrow>
      router_get_id db params_id s =
        \<lparr>response =
           \<lparr>status = 404, body = JObj [(''message'', JStr ''Ingredient not found'')]\<rparr>,
         db_calls = [IngredientFindOne (JNum (parseInt params_id))], console_error = [],
         db_state = s\<rparr>)
   \<and> (\<not> isNaN (parseInt params_id)
        \<and> ingredient_findOne db (JNum (parseInt params_id)) s = Inr row \<and> \<not> falsy row \<longrightarrow>
      router_get_id db params_id s =
        \<lparr>response = \<lparr>status = 200, body = row\<rparr>,
         db_calls = [IngredientFindOne (JNum (parseInt params_id))], console_error = [],
         db_state = s\<rparr>)"
  by (simp add: router_get_id_def reply_def message_def Let_def)

text \<open>
  Claim C5, at the input where the code leaves it. The path parameters \<open>1.5\<close> and \<open>1abc\<close>
  are not integers, but \<open>parseInt\<close> reads their leading \<open>1\<close>, so the test
  \<open>isNaN(id)\<close> lets them pass: with the ingredient of id 1 stored, the handler looks up
  id 1 and answers 200 with that row (and 404 when there is no such row), where a
  parameter with no leading digit, such as \<open>abc\<close>, gets 400 "Invalid ingredient ID".
\<close>

theorem get_by_id_accepts_non_integer_id:
  "router_get_id memory_db ''1.5'' [JObj [(''id'', JNum (Fin 1)), (''name'', JStr ''Tomatoes'')]] =
     \<lparr>response =
        \<lparr>status = 200, body = JObj [(''id'', JNum (Fin 1)), (''name'', JStr ''Tomatoes'')]\<rparr>,
      db_calls = [IngredientFindOne (JNum (Fin 1))], console_error = [],
      db_state = [JObj [(''id'', JNum (Fin 1)), (''name'', JStr ''Tomatoes'')]]\<rparr>
   \<and> router_get_id memory_db ''1abc'' [JObj [(''id'', JNum (Fin 1)), (''name'', JStr ''Tomatoes'')]] =
     \<lparr>response =
        \<lparr>status = 200, body = JObj [(''id'', JNum (Fin 1)), (''name'', JStr ''Tomatoes'')]\<rparr>,
      db_calls = [IngredientFindOne (JNum (Fin 1))], console_error = [],
      db_state = [JObj [(''id'', JNum (Fin 1)), (''name'', JStr ''Tomatoes'')]]\<rparr>
   \<and> router_get_id memory_db ''1.5'' [] =
     \<lparr>response =
        \<lparr>status = 404, body = JObj [(''message'', JStr ''Ingredient not found'')]\<rparr>,
      db_calls = [IngredientFindOne (JNum (Fin 1))], console_error = [], db_state = []\<rparr>
   \<and> router_get_id memory_db ''abc'' [] =
     \<lparr>response =
        \<lparr>status = 400, body = JObj [(''message'', JStr ''Invalid ingredient ID'')]\<rparr>,
      db_calls = [], console_error = [], db_state = []\<rparr>"
  by (simp add: router_get_id_def parseInt_prefix parseInt_abc isNaN_def memory_db_def
      row_with_id_def lookup_def reply_def message_def Let_def)

section \<open>Properties of the data-access layer\<close>

lemma own_values_iff: "v \<in> set (own_values obj) \<longleftrightarrow> (\<exists>k. map_of obj k = Some v)"
proof
  assume "v \<in> set (own_values obj)"
  then obtain k where k: "k \<in> fst ` set obj" and v: "v = lookup obj k"
    by (auto simp: own_values_def)
  from k obtain w where "map_of obj k = Some w"
    by (metis domD dom_map_of_conv_image_fst)
  with v show "\<exists>k. map_of obj k = Some v"
    by (auto simp: lookup_def)
next
  assume "\<exists>k. map_of obj k = Some v"
  then obtain k where k: "map_of obj k = Some v" ..
  then have "k \<in> fst ` set obj"
    by (metis domI dom_map_of_conv_image_fst)
  with k show "v \<in> set (own_values obj)"
    by (force simp: own_values_def lookup_def)
qed

text \<open>
  On a criteria object that lodash does not take for an array (its \<open>length\<close>, if it has
  one, is not a valid array length) the guard finds every empty array, and the four
  guarded methods return without a call to the table.
\<close>

lemma empty_array_test:
  "(case val of JArr xs \<Rightarrow> length xs = 0 | _ \<Rightarrow> False) \<longleftrightarrow> val = JArr []"
  by (cases val) auto

lemma hasEmptyArray_plain_object:
  assumes "\<not> isLength (lookup criteria ''length'')"
  shows "hasEmptyArray criteria \<longleftrightarrow> (\<exists>k. map_of criteria k = Some (JArr []))"
proof -
  have "hasEmptyArray criteria \<longleftrightarrow> JArr [] \<in> set (own_values criteria)"
    using assms by (auto simp: hasEmptyArray_def some_def list_ex_iff empty_array_test)
  then show ?thesis
    by (simp add: own_values_iff)
qed

lemma guarded_methods_short_circuit:
  assumes "\<not> isLength (lookup criteria ''length'')" and "map_of criteria k = Some (JArr [])"
  shows "PantryView_find this (Some criteria) options = (Inr [], [])"
    "PantryView_count this (Some criteria) = (Inr (Some ''0''), [])"
    "PantryTable_update this criteria updates = (Inr [], [])"
    "PantryTable_destroy this criteria = (Inr [], [])"
  using hasEmptyArray_plain_object [OF assms(1)] assms(2)
  by (auto simp: PantryView_find_def PantryView_count_def PantryTable_update_def
      PantryTable_destroy_def)

lemma Number_of_string_zero: "Number (Some ''0'') = Fin 0"
  by (simp add: Number_def Number_of_string_def trim_def is_ws_def radix_of_prefix_def
      parse_decimal_def parse_unsigned_def parse_exponent_def is_digit_def digit_of_def
      digits_value_def pow10_def number_of_rat_def)

lemma decimal_0: "decimal 0 = ''0''"
  by simp

text \<open>
  Claim C2, at the input where the code leaves it. The criteria
  \<open>{ length: 1, ids: [] }\<close> map the field \<open>ids\<close> to an empty array, but lodash iterates
  an object with such a \<open>length\<close> by the index \<open>0\<close>, finds nothing there, and
  \<open>hasEmptyArray\<close> answers false: \<open>find\<close>, \<open>count\<close>, \<open>update\<close> and \<open>destroy\<close> all go
  to the table with the empty array in the criteria.
\<close>

theorem empty_array_guard_misses_array_like_criteria:
  "hasEmptyArray [(''length'', JNum (Fin 1)), (''ids'', JArr [])] = False
   \<and> PantryView_find (fixed_view row counted)
        (Some [(''length'', JNum (Fin 1)), (''ids'', JArr [])]) None =
       (Inr [row], [Find (Some [(''length'', JNum (Fin 1)), (''ids'', JArr [])]) (Some [])])
   \<and> PantryView_count (fixed_view row counted)
        (Some [(''length'', JNum (Fin 1)), (''ids'', JArr [])]) =
       (Inr counted, [Count (Some [(''length'', JNum (Fin 1)), (''ids'', JArr [])])])
   \<and> PantryTable_update (fixed_view row counted)
        [(''length'', JNum (Fin 1)), (''ids'', JArr [])] updates =
       (Inr [row], [Update [(''length'', JNum (Fin 1)), (''ids'', JArr [])] updates None])
   \<and> PantryTable_destroy (fixed_view row counted)
        [(''length'', JNum (Fin 1)), (''ids'', JArr [])] =
       (Inr [row], [Destroy [(''length'', JNum (Fin 1)), (''ids'', JArr [])] None])"
proof -
  have "hasEmptyArray [(''length'', JNum (Fin 1)), (''ids'', JArr [])] = False"
    by (simp add: hasEmptyArray_def some_def isLength_def length_value_def lookup_def decimal_0)
  then show ?thesis
    by (simp add: PantryView_find_def PantryView_count_def PantryTable_update_def
        PantryTable_destroy_def fixed_view_def fixed_table_def spread_def)
qed

text \<open>
  The nine operations that map: what they return is \<open>defaultMapper\<close> applied to what
  the wrapper returned, called on the DAO for a single row and detached, through
  \<open>Array.prototype.map\<close>, for a list of rows.
\<close>

lemma returning_value:
  "returned (returning f run) = (case fst run of Inl e \<Rightarrow> Inl e | Inr result \<Rightarrow> f result)"
  by (cases run; cases "fst run") (auto simp: returning_def)

lemma mapping_operations:
  assumes "getTable this db = Inr tbl"
  shows "returned (findById this db id') =
           (case fst (PantryView_findOne tbl id' None) of
              Inl e \<Rightarrow> Inl e | Inr row \<Rightarrow> mapped_or_null this row)"
    "returned (findOneFor this db criteria) =
           (case fst (PantryView_findOne tbl (JObj criteria) None) of
              Inl e \<Rightarrow> Inl e | Inr row \<Rightarrow> mapped_or_null this row)"
    "returned (findAll this db options) =
           (case fst (PantryView_find tbl None options) of
              Inl e \<Rightarrow> Inl e | Inr rows \<Rightarrow> mapped_all this rows)"
    "returned (findAllFor this db criteria options) =
           (case fst (PantryView_find tbl (Some criteria) options) of
              Inl e \<Rightarrow> Inl e | Inr rows \<Rightarrow> mapped_all this rows)"
    "returned (DAO_insert this db data options) =
           (case fst (PantryTable_insertOne tbl (sanitizeInsertRecord this data) options) of
              Inl e \<Rightarrow> Inl e | Inr row \<Rightarrow> mapped_or_null this row)"
    "returned (batchInsert this db records) =
           (case fst (PantryTable_insert tbl (map (sanitizeInsertRecord this) records) None) of
              Inl e \<Rightarrow> Inl e | Inr rows \<Rightarrow> mapped_all this rows)"
    "returned (DAO_save this db data) =
           (case fst (PantryTable_save tbl (sanitizeInsertRecord this data)) of
              Inl e \<Rightarrow> Inl e | Inr row \<Rightarrow> mapped_or_null this row)"
  using assms
  by (auto simp: findById_def findOneFor_def findAll_def findAllFor_def DAO_insert_def
      batchInsert_def DAO_save_def returning_value Let_def split: sum.splits prod.splits)

lemma mapping_update_operations:
  assumes "getTable this db = Inr tbl"
  shows "returned (DAO_update this db criteria fields) =
           (case fst (PantryTable_update tbl criteria (sanitizeUpdateRecord this fields)) of
              Inl e \<Rightarrow> Inl e | Inr rows \<Rightarrow> mapped_all this rows)"
    "returned (updateById this db id' fields) =
           (case fst (PantryTable_updateOne tbl id' (sanitizeUpdateRecord this fields) None) of
              Inl e \<Rightarrow> Inl e | Inr row \<Rightarrow> mapped_or_null this row)"
  using assms
  by (auto simp: DAO_update_def updateById_def returning_value Let_def split: sum.splits)

text \<open>
  A mapper that does not look at \<open>this\<close>, the index or the array and does not throw maps
  a list row by row.
\<close>

lemma mapped_all_plain:
  assumes "\<And>this' row rest. defaultMapper this this' row rest = Inr (f row)"
  shows "array_map_from (\<lambda>row index array. defaultMapper this Undefined row (Some (index, array)))
           array index rows = Inr (map f rows)"
    and "mapped_all this rows = Inr (map f rows)"
proof -
  show "array_map_from (\<lambda>row index array. defaultMapper this Undefined row (Some (index, array)))
           array index rows = Inr (map f rows)" for array index rows
    by (induction rows arbitrary: index) (simp_all add: assms)
  then show "mapped_all this rows = Inr (map f rows)"
    by (simp add: mapped_all_def)
qed

text \<open>
  A mapper that throws when \<open>this\<close> is undefined makes the operations on lists reject as
  soon as the table returns a row, after the call to the table was made.
\<close>

lemma detached_mapper_rejects:
  assumes "getTable this db = Inr tbl"
    and "PantryView_find tbl None options = (Inr (row # rows), cs)"
    and "defaultMapper this Undefined row (Some (0, row # rows)) = Inl e"
  shows "findAll this db options = \<lparr>returned = Inl e, table_calls = cs, console = []\<rparr>"
  using assms by (simp add: findAll_def returning_def mapped_all_def)

text \<open>
  Claim C7, at the input where the code leaves it. \<open>removeById\<close> and \<open>removeAllFor\<close>
  return what the wrapper's \<open>destroyOne\<close> and \<open>destroy\<close> returned, as it is: with a
  \<open>defaultMapper\<close> that marks the rows it maps, the removed row comes back unmarked,
  where \<open>updateById\<close> and \<open>update\<close> on the same DAO return it marked.
\<close>

theorem remove_operations_skip_defaultMapper:
  "returned (removeById (marking_dao (JObj [(''id'', JNum (Fin 1))]) None) () (JNum (Fin 1))) =
     Inr (Some (JObj [(''id'', JNum (Fin 1))]))
   \<and> returned (removeAllFor (marking_dao (JObj [(''id'', JNum (Fin 1))]) None) ()
        [(''id'', JNum (Fin 1))]) =
     Inr [JObj [(''id'', JNum (Fin 1))]]
   \<and> defaultMapper (marking_dao (JObj [(''id'', JNum (Fin 1))]) None) This
       (JObj [(''id'', JNum (Fin 1))]) None =
     Inr (JObj [(''id'', JNum (Fin 1)), (''mapped'', JBool True)])
   \<and> returned (updateById (marking_dao (JObj [(''id'', JNum (Fin 1))]) None) () (JNum (Fin 1)) JNull) =
     Inr (Some (JObj [(''id'', JNum (Fin 1)), (''mapped'', JBool True)]))
   \<and> returned (DAO_update (marking_dao (JObj [(''id'', JNum (Fin 1))]) None) ()
        [(''id'', JNum (Fin 1))] JNull) =
     Inr [JObj [(''id'', JNum (Fin 1)), (''mapped'', JBool True)]]"
proof -
  have plain: "hasEmptyArray [(''id'', JNum (Fin 1))] = False"
    by (simp add: hasEmptyArray_def some_def isLength_def lookup_def own_values_def)
  show ?thesis
    by (simp add: removeById_def removeAllFor_def updateById_def DAO_update_def marking_dao_def
        fixed_view_def fixed_table_def returning_def PantryTable_destroyOne_def
        PantryTable_destroy_def PantryTable_updateOne_def PantryTable_update_def plain
        mark_def mapped_or_null_def mapped_all_def)
qed

text \<open>
  Claim C8. When the wrapper's \<open>count\<close> resolves with a value that \<open>Number\<close> turns into
  NaN, \<open>count\<close> of the DAO prints one \<open>console.error\<close> (with the value, NaN and the
  criteria) and returns NaN: it does not throw.
\<close>

theorem count_not_a_number:
  assumes "getTable this db = Inr tbl"
    and "PantryView_count tbl criteria = (Inr counted, cs)"
    and "isNaN (Number counted)"
  shows "DAO_count this db criteria =
           \<lparr>returned = Inr NaN, table_calls = cs,
            console = [MassiveCountReturnedNaN counted NaN criteria]\<rparr>"
  using assms by (simp add: DAO_count_def isNaN_def)

lemma Number_many: "Number (Some ''many'') = NaN"
  by (simp add: Number_def Number_of_string_def trim_def is_ws_def radix_of_prefix_def
      parse_decimal_def parse_unsigned_def is_digit_def digit_of_def)

theorem count_not_a_number_witness:
  "DAO_count (marking_dao JNull (Some ''many'')) () None =
     \<lparr>returned = Inr NaN, table_calls = [Count None],
      console = [MassiveCountReturnedNaN (Some ''many'') NaN None]\<rparr>"
  using count_not_a_number
    [of "marking_dao JNull (Some ''many'')" "()" "fixed_view JNull (Some ''many'')" None
        "Some ''many''" "[Count None]"]
  by (simp add: marking_dao_def PantryView_count_def fixed_view_def fixed_table_def
      Number_many isNaN_def)

text \<open>
  A scripts object that is undefined or null fails with an error of its own, which does
  not name the script.
\<close>

lemma script_without_scripts_object:
  "scripts this = None \<Longrightarrow>
     PantryView_script this scriptName = Inl (Error ''No scripts available for this table'')"
  by (simp add: PantryView_script_def)

text \<open>
  Claim C9. On a table with a scripts object, asking for a script name that is not a
  property of that object throws an \<open>Error\<close> whose message names the script and says it
  does not exist on the table; no function is returned. Through the DAO the error is
  thrown before any call is made.
\<close>

theorem script_not_found:
  assumes "scripts this = Some own" and "own scriptName = None"
  shows "PantryView_script this scriptName =
           Inl (Error (''Script '' @ scriptName @ '' does not exist on this table''))
         \<and> (getTable dao db = Inr this \<longrightarrow>
              DAO_script dao db scriptName params =
                \<lparr>returned =
                   Inl (Error (''Script '' @ scriptName @ '' does not exist on this table'')),
                 table_calls = [], console = []\<rparr>)"
  using assms by (simp add: PantryView_script_def DAO_script_def thrown_def)

theorem script_not_found_witness:
  "PantryView_script (fixed_view JNull None) ''byName'' =
     Inl (Error ''Script byName does not exist on this table'')
   \<and> DAO_script (marking_dao JNull None) () ''byName'' [] =
       \<lparr>returned = Inl (Error ''Script byName does not exist on this table''),
        table_calls = [], console = []\<rparr>"
  using script_not_found
    [where this = "fixed_view JNull None"
       and own = "\<lambda>scriptName. if scriptName = ''byVendor'' then Some (\<lambda>params. Inr [JNull]) else None"
       and scriptName = "''byName''" and dao = "marking_dao JNull None" and db = "()"
       and params = "[]"]
  by (simp add: fixed_view_def marking_dao_def)

text \<open>
  Claim C10. \<open>findOne\<close> of the wrapper has no guard: whatever the criteria, also a
  criteria object for which \<open>hasEmptyArray\<close> holds, it makes exactly one call
  \<open>table.findOne(criteria)\<close> with the criteria as given and no second argument, and
  returns what that call returns. The \<open>options\<close> it was given take no part: the run is the
  same for every \<open>options\<close>. (\<open>find\<close> on the same criteria returns the empty list with no
  call.)
\<close>

theorem findOne_passes_criteria_through:
  "PantryView_findOne this criteria options =
     (massive_findOne (table this) criteria None, [FindOne criteria None])
   \<and> PantryView_findOne this criteria options = PantryView_findOne this criteria options'
   \<and> (if hasEmptyArray c
       then PantryView_find this (Some c) opts = (Inr [], [])
            \<and> snd (PantryView_findOne this (JObj c) options) = [FindOne (JObj c) None]
       else snd (PantryView_find this (Some c) opts) \<noteq> [])"
  by (simp add: PantryView_findOne_def PantryView_find_def Let_def)

theorem findOne_passes_criteria_through_witness:
  "PantryView_findOne (fixed_view JNull None) (JObj [(''ids'', JArr [])])
     (Some [(''single'', JBool True)]) =
     (Inr (Some JNull), [FindOne (JObj [(''ids'', JArr [])]) None])
   \<and> hasEmptyArray [(''ids'', JArr [])]"
proof -
  have "hasEmptyArray [(''ids'', JArr [])]"
    by (simp add: hasEmptyArray_def some_def isLength_def lookup_def own_values_def)
  then show ?thesis
    using findOne_passes_criteria_through
      [of "fixed_view JNull None" "JObj [(''ids'', JArr [])]" "Some [(''single'', JBool True)]"
          None "[(''ids'', JArr [])]" None]
    by (simp add: fixed_view_def fixed_table_def)
qed

section \<open>Properties of the ingredient form\<close>

text \<open>
  After a response that is not ok whose body is a JSON value other than null, the alert
  shows the server's message, or the fallback when that is falsy, and the fields keep
  their text. A rejected \<open>fetch\<close>, a body that is not JSON and a body that is null all
  end in the network-error alert, with the fields kept.
\<close>

lemma submit_not_ok:
  assumes "fst (validateForm st)"
    and "fetch (submit_request (formData st)) = Resolved False (Inr errorData)"
    and "get_field errorData ''message'' = Inr m"
  shows "fst (handleSubmit fetch st) =
           st\<lparr>errors := [], isSubmitting := False,
              submitMessage :=
                Some (SubmitMessage error (if falsy m then JStr ''Failed to add ingredient'' else m))\<rparr>"
  using assms by (simp add: handleSubmit_def validateForm_def Let_def)

lemma submit_network_failure:
  assumes "fst (validateForm st)"
    and "fetch (submit_request (formData st)) = Rejected e
         \<or> fetch (submit_request (formData st)) = Resolved False (Inl e)
         \<or> fetch (submit_request (formData st)) = Resolved False (Inr JNull)"
  shows "fst (handleSubmit fetch st) =
           st\<lparr>errors := [], isSubmitting := False,
              submitMessage :=
                Some (SubmitMessage error (JStr ''Network error. Please try again.''))\<rparr>"
  using assms by (auto simp: handleSubmit_def validateForm_def Let_def network_error_def)

lemma submit_invalid_sends_nothing:
  "\<not> fst (validateForm st) \<Longrightarrow>
     handleSubmit fetch st = (st\<lparr>errors := newErrors (formData st)\<rparr>, [])"
  by (simp add: handleSubmit_def validateForm_def)

text \<open>
  Claim C6, at the input where the code leaves it. After a response that is ok the handler
  sets the success message and then calls \<open>handleClear\<close>, whose last step sets the
  message to null: in the state the component is left in, every field is empty and
  \<open>submitMessage\<close> is null, so no success notice is shown.
\<close>

theorem submit_ok_leaves_no_notice:
  assumes "fst (validateForm st)"
    and "fetch (submit_request (formData st)) = Resolved True json"
  shows "fst (handleSubmit fetch st) =
           \<lparr>formData = \<lparr>name = '''', unit = '''', cost_per_unit = '''', vendor_id = ''''\<rparr>,
            errors = [], isSubmitting = False, submitMessage = None\<rparr>"
  using assms by (simp add: handleSubmit_def validateForm_def Let_def handleClear_def)

lemma parseFloat_1: "parseFloat ''1'' = Fin 1"
  by (simp add: parseFloat_def is_ws_def parse_decimal_def parse_unsigned_def
      parse_exponent_def is_digit_def digit_of_def digits_value_def pow10_def
      number_of_rat_1)

lemma salt_is_valid:
  "fst (validateForm
     \<lparr>formData = \<lparr>name = ''Salt'', unit = ''g'', cost_per_unit = ''1'', vendor_id = ''1''\<rparr>,
      errors = [], isSubmitting = False, submitMessage = None\<rparr>)"
  by (simp add: validateForm_def newErrors_def trim_def is_ws_def parseFloat_1 isNaN_def)

theorem submit_ok_leaves_no_notice_witness:
  "submitMessage (fst (handleSubmit (\<lambda>req. Resolved True (Inr JNull))
     \<lparr>formData = \<lparr>name = ''Salt'', unit = ''g'', cost_per_unit = ''1'', vendor_id = ''1''\<rparr>,
      errors = [], isSubmitting = False, submitMessage = None\<rparr>)) = None
   \<and> formData (fst (handleSubmit (\<lambda>req. Resolved True (Inr JNull))
     \<lparr>formData = \<lparr>name = ''Salt'', unit = ''g'', cost_per_unit = ''1'', vendor_id = ''1''\<rparr>,
      errors = [], isSubmitting = False, submitMessage = None\<rparr>)) =
     \<lparr>name = '''', unit = '''', cost_per_unit = '''', vendor_id = ''''\<rparr>"
  using submit_ok_leaves_no_notice
    [OF salt_is_valid, of "\<lambda>req. Resolved True (Inr JNull)" "Inr JNull"]
  by simp

end
